theory Spec2Isabelle
  imports Main
begin

section \<open>Python strings\<close>

text \<open>
  A Python \<open>str\<close> is a sequence of Unicode code points, so a string is modelled as a list
  of code points and \<open>len\<close> is \<open>length\<close>. Literals of the source are written as Isabelle
  string literals and converted by \<open>lit\<close>.

  Case mapping and the character classes of \<open>re\<close> are given on the ASCII range, on
  U+017F (LATIN SMALL LETTER LONG S, a lowercase letter whose title-case form is \<open>S\<close>) and
  on U+2013 (EN DASH, which the year-range pattern of the experience detector names).
  The white-space class is the complete one of \<open>str.isspace\<close>. Other code points are
  treated as uncased characters outside \<open>\w\<close> and \<open>\d\<close>.
\<close>

type_synonym pstr = "nat list"

definition lit :: "string \<Rightarrow> pstr" where
  "lit s = map of_char s"

definition long_s :: nat where
  "long_s = 383"

definition en_dash :: nat where
  "en_dash = 8211"

definition is_upper :: "nat \<Rightarrow> bool" where
  "is_upper c = (65 \<le> c \<and> c \<le> 90)"

definition is_lower :: "nat \<Rightarrow> bool" where
  "is_lower c = (97 \<le> c \<and> c \<le> 122)"

definition is_digit :: "nat \<Rightarrow> bool" where
  "is_digit c = (48 \<le> c \<and> c \<le> 57)"

definition is_cased :: "nat \<Rightarrow> bool" where
  "is_cased c = (is_upper c \<or> is_lower c \<or> c = long_s)"

text \<open>\<open>\w\<close>: letters, digits and the underscore.\<close>

definition is_word :: "nat \<Rightarrow> bool" where
  "is_word c = (is_upper c \<or> is_lower c \<or> is_digit c \<or> c = 95 \<or> c = long_s)"

text \<open>\<open>str.isspace\<close>, which is also \<open>\s\<close> and what \<open>str.strip\<close> removes.\<close>

definition is_space :: "nat \<Rightarrow> bool" where
  "is_space c = ((9 \<le> c \<and> c \<le> 13) \<or> (28 \<le> c \<and> c \<le> 32) \<or> c = 133 \<or> c = 160
     \<or> c = 5760 \<or> (8192 \<le> c \<and> c \<le> 8202) \<or> c = 8232 \<or> c = 8233 \<or> c = 8239
     \<or> c = 8287 \<or> c = 12288)"

definition lower_cp :: "nat \<Rightarrow> nat" where
  "lower_cp c = (if is_upper c then c + 32 else c)"

definition title_cp :: "nat \<Rightarrow> nat" where
  "title_cp c = (if is_lower c then c - 32 else if c = long_s then 83 else c)"

text \<open>\<open>str.lower\<close>.\<close>

definition lower :: "pstr \<Rightarrow> pstr" where
  "lower s = map lower_cp s"

text \<open>\<open>str.strip\<close> with no argument.\<close>

definition strip :: "pstr \<Rightarrow> pstr" where
  "strip s = rev (dropWhile is_space (rev (dropWhile is_space s)))"

text \<open>
  \<open>str.title\<close>: a character that follows a cased character is lowercased, any other
  character is title-cased.
\<close>

fun title_from :: "bool \<Rightarrow> pstr \<Rightarrow> pstr" where
  "title_from prev [] = []"
| "title_from prev (c # cs) =
     (if prev then lower_cp c else title_cp c) # title_from (is_cased c) cs"

definition title_case :: "pstr \<Rightarrow> pstr" where
  "title_case s = title_from False s"

text \<open>\<open>t.startswith(s)\<close>, and \<open>s in t\<close> for strings.\<close>

definition starts_with :: "pstr \<Rightarrow> pstr \<Rightarrow> bool" where
  "starts_with t s = (take (length s) t = s)"

fun contains :: "pstr \<Rightarrow> pstr \<Rightarrow> bool" where
  "contains [] s = (s = [])"
| "contains (c # cs) s = (starts_with (c # cs) s \<or> contains cs s)"

text \<open>\<open>s.split('\n')\<close>: always at least one piece.\<close>

fun split_lines :: "pstr \<Rightarrow> pstr list" where
  "split_lines [] = [[]]"
| "split_lines (c # cs) =
     (if c = 10 then [] # split_lines cs
      else (case split_lines cs of [] \<Rightarrow> [[c]] | l # ls \<Rightarrow> (c # l) # ls))"

text \<open>\<open>sep.join(xs)\<close>.\<close>

fun join :: "pstr \<Rightarrow> pstr list \<Rightarrow> pstr" where
  "join sep [] = []"
| "join sep [x] = x"
| "join sep (x # y # ys) = x @ sep @ join sep (y # ys)"

text \<open>\<open>s[a:b]\<close> for \<open>0 \<le> a\<close> and \<open>0 \<le> b\<close>.\<close>

definition slice :: "pstr \<Rightarrow> nat \<Rightarrow> nat \<Rightarrow> pstr" where
  "slice s a b = take (b - a) (drop a s)"

text \<open>\<open>int(s)\<close> on a string of decimal digits, and \<open>str(n)\<close> for \<open>n \<ge> 0\<close>.\<close>

definition int_of_digits :: "pstr \<Rightarrow> nat" where
  "int_of_digits s = foldl (\<lambda>n c. 10 * n + (c - 48)) 0 s"

fun digits_of :: "nat \<Rightarrow> nat \<Rightarrow> pstr" where
  "digits_of 0 n = []"
| "digits_of (Suc fuel) n =
     (if n < 10 then [48 + n] else digits_of fuel (n div 10) @ [48 + n mod 10])"

definition str_of_nat :: "nat \<Rightarrow> pstr" where
  "str_of_nat n = digits_of (Suc n) n"

section \<open>Regular expressions\<close>

text \<open>
  The patterns of the source are matched by Python's backtracking matcher. A pattern is
  modelled as a function from the subject and a state (a position and the groups captured
  so far) to the list of states in which a match of the pattern can end, in the order in
  which the matcher tries them: the head of the list is the match that \<open>re\<close> reports.
\<close>

type_synonym mstate = "nat \<times> (nat \<times> nat \<times> nat) list"

type_synonym rx = "pstr \<Rightarrow> mstate \<Rightarrow> mstate list"

text \<open>One character of a class.\<close>

definition cls :: "(nat \<Rightarrow> bool) \<Rightarrow> rx" where
  "cls P t st = (if fst st < length t \<and> P (t ! fst st) then [(Suc (fst st), snd st)] else [])"

text \<open>A literal (what \<open>re.escape\<close> of a string matches).\<close>

definition lits :: "pstr \<Rightarrow> rx" where
  "lits s t st = (if starts_with (drop (fst st) t) s then [(fst st + length s, snd st)] else [])"

text \<open>
  A literal under \<open>re.IGNORECASE\<close>: characters are compared by their lowercase forms, and
  \<open>s\<close> also matches the long s.
\<close>

definition fold_cp :: "nat \<Rightarrow> nat" where
  "fold_cp c = (if c = long_s then 115 else lower_cp c)"

definition lits_i :: "pstr \<Rightarrow> rx" where
  "lits_i s t st =
     (if map fold_cp (take (length s) (drop (fst st) t)) = map fold_cp s
      then [(fst st + length s, snd st)] else [])"

text \<open>Concatenation, alternation (left to right), and the empty pattern.\<close>

definition seq :: "rx \<Rightarrow> rx \<Rightarrow> rx" where
  "seq r1 r2 t st = concat (map (r2 t) (r1 t st))"

definition alt :: "rx list \<Rightarrow> rx" where
  "alt rs t st = concat (map (\<lambda>r. r t st) rs)"

definition eps :: rx where
  "eps t st = [st]"

fun seqs :: "rx list \<Rightarrow> rx" where
  "seqs [] = eps"
| "seqs [r] = r"
| "seqs (r # rs) = seq r (seqs rs)"

text \<open>\<open>r?\<close>, greedy: with \<open>r\<close> first, then without.\<close>

definition opt :: "rx \<Rightarrow> rx" where
  "opt r t st = r t st @ [st]"

text \<open>
  \<open>[..]*\<close>, \<open>[..]+\<close> and \<open>[..]{k}\<close> on a character class, greedy: the longest run first,
  then each shorter one.
\<close>

definition run :: "(nat \<Rightarrow> bool) \<Rightarrow> pstr \<Rightarrow> nat \<Rightarrow> nat" where
  "run P t p = length (takeWhile P (drop p t))"

definition star :: "(nat \<Rightarrow> bool) \<Rightarrow> rx" where
  "star P t st = map (\<lambda>k. (fst st + k, snd st)) (rev [0..<Suc (run P t (fst st))])"

definition plus :: "(nat \<Rightarrow> bool) \<Rightarrow> rx" where
  "plus P t st = map (\<lambda>k. (fst st + k, snd st)) (rev [1..<Suc (run P t (fst st))])"

definition times :: "(nat \<Rightarrow> bool) \<Rightarrow> nat \<Rightarrow> rx" where
  "times P k t st = (if k \<le> run P t (fst st) then [(fst st + k, snd st)] else [])"

text \<open>\<open>\b\<close>: exactly one of the two neighbouring characters is a word character.\<close>

definition word_at :: "pstr \<Rightarrow> nat \<Rightarrow> bool" where
  "word_at t p = (p < length t \<and> is_word (t ! p))"

definition wordb :: rx where
  "wordb t st =
     (if (0 < fst st \<and> word_at t (fst st - 1)) \<noteq> word_at t (fst st) then [st] else [])"

text \<open>A capturing group with its number.\<close>

definition grp :: "nat \<Rightarrow> rx \<Rightarrow> rx" where
  "grp n r t st = map (\<lambda>(e, caps). (e, (n, fst st, e) # caps)) (r t st)"

text \<open>
  A match: where it starts, where it ends, and its groups. \<open>group m n t\<close> is
  \<open>m.group(n)\<close> for a group that took part in the match.
\<close>

type_synonym rmatch = "nat \<times> nat \<times> (nat \<times> nat \<times> nat) list"

definition m_start :: "rmatch \<Rightarrow> nat" where
  "m_start m = fst m"

definition m_end :: "rmatch \<Rightarrow> nat" where
  "m_end m = fst (snd m)"

definition group0 :: "rmatch \<Rightarrow> pstr \<Rightarrow> pstr" where
  "group0 m t = slice t (m_start m) (m_end m)"

definition group :: "rmatch \<Rightarrow> nat \<Rightarrow> pstr \<Rightarrow> pstr" where
  "group m n t = (case map_of (snd (snd m)) n of None \<Rightarrow> [] | Some (a, b) \<Rightarrow> slice t a b)"

text \<open>
  \<open>re.finditer\<close>: the positions are tried from left to right; a position inside the
  previous match is skipped. \<open>re.search\<close> is the first of these matches.
\<close>

fun scan :: "rx \<Rightarrow> pstr \<Rightarrow> nat list \<Rightarrow> nat \<Rightarrow> rmatch list" where
  "scan r t [] skip = []"
| "scan r t (p # ps) skip =
     (if p < skip then scan r t ps skip
      else (case r t (p, []) of
              [] \<Rightarrow> scan r t ps skip
            | (e, caps) # _ \<Rightarrow> (p, e, caps) # scan r t ps (if p < e then e else Suc p)))"

definition finditer :: "rx \<Rightarrow> pstr \<Rightarrow> rmatch list" where
  "finditer r t = scan r t [0..<Suc (length t)] 0"

fun first_match :: "rx \<Rightarrow> pstr \<Rightarrow> nat list \<Rightarrow> rmatch option" where
  "first_match r t [] = None"
| "first_match r t (p # ps) =
     (case r t (p, []) of [] \<Rightarrow> first_match r t ps | (e, caps) # _ \<Rightarrow> Some (p, e, caps))"

definition search :: "rx \<Rightarrow> pstr \<Rightarrow> rmatch option" where
  "search r t = first_match r t [0..<Suc (length t)]"

text \<open>\<open>re.split\<close> for a pattern without groups: the pieces between the matches.\<close>

fun pieces :: "pstr \<Rightarrow> nat \<Rightarrow> rmatch list \<Rightarrow> pstr list" where
  "pieces t a [] = [drop a t]"
| "pieces t a (m # ms) = slice t a (m_start m) # pieces t (m_end m) ms"

definition re_split :: "rx \<Rightarrow> pstr \<Rightarrow> pstr list" where
  "re_split r t = pieces t 0 (finditer r t)"

section \<open>The skill taxonomy\<close>

text \<open>
  The two tables of \<open>skill_database.py\<close>, in the order of the source. The values of
  \<open>SKILL_CATEGORIES\<close> are sets: only membership in them is used.
\<close>

definition SKILL_ALIASES :: "(pstr \<times> pstr) list" where
  "SKILL_ALIASES =
    [(lit ''js'', lit ''JavaScript''),
     (lit ''javascript'', lit ''JavaScript''),
     (lit ''es6'', lit ''JavaScript''),
     (lit ''es2015'', lit ''JavaScript''),
     (lit ''ecmascript'', lit ''JavaScript''),
     (lit ''ts'', lit ''TypeScript''),
     (lit ''typescript'', lit ''TypeScript''),
     (lit ''py'', lit ''Python''),
     (lit ''python'', lit ''Python''),
     (lit ''python3'', lit ''Python''),
     (lit ''python2'', lit ''Python''),
     (lit ''react'', lit ''React''),
     (lit ''reactjs'', lit ''React''),
     (lit ''react.js'', lit ''React''),
     (lit ''node'', lit ''Node.js''),
     (lit ''nodejs'', lit ''Node.js''),
     (lit ''node.js'', lit ''Node.js''),
     (lit ''postgres'', lit ''PostgreSQL''),
     (lit ''postgresql'', lit ''PostgreSQL''),
     (lit ''mysql'', lit ''MySQL''),
     (lit ''mongo'', lit ''MongoDB''),
     (lit ''mongodb'', lit ''MongoDB''),
     (lit ''sql server'', lit ''SQL Server''),
     (lit ''mssql'', lit ''SQL Server''),
     (lit ''aws'', lit ''AWS''),
     (lit ''amazon web services'', lit ''AWS''),
     (lit ''azure'', lit ''Azure''),
     (lit ''microsoft azure'', lit ''Azure''),
     (lit ''gcp'', lit ''Google Cloud''),
     (lit ''google cloud'', lit ''Google Cloud''),
     (lit ''google cloud platform'', lit ''Google Cloud''),
     (lit ''docker'', lit ''Docker''),
     (lit ''containerization'', lit ''Docker''),
     (lit ''k8s'', lit ''Kubernetes''),
     (lit ''kubernetes'', lit ''Kubernetes''),
     (lit ''c#'', lit ''C#''),
     (lit ''csharp'', lit ''C#''),
     (lit ''c sharp'', lit ''C#''),
     (lit ''c++'', lit ''C++''),
     (lit ''cpp'', lit ''C++''),
     (lit ''.net'', lit ''.NET''),
     (lit ''dotnet'', lit ''.NET''),
     (lit ''dot net'', lit ''.NET''),
     (lit ''ml'', lit ''Machine Learning''),
     (lit ''machine learning'', lit ''Machine Learning''),
     (lit ''ai'', lit ''Artificial Intelligence''),
     (lit ''artificial intelligence'', lit ''Artificial Intelligence''),
     (lit ''dl'', lit ''Deep Learning''),
     (lit ''deep learning'', lit ''Deep Learning''),
     (lit ''nlp'', lit ''NLP''),
     (lit ''natural language processing'', lit ''NLP''),
     (lit ''tensorflow'', lit ''TensorFlow''),
     (lit ''tf'', lit ''TensorFlow''),
     (lit ''pytorch'', lit ''PyTorch''),
     (lit ''torch'', lit ''PyTorch''),
     (lit ''git'', lit ''Git''),
     (lit ''github'', lit ''GitHub''),
     (lit ''gitlab'', lit ''GitLab''),
     (lit ''bitbucket'', lit ''Bitbucket''),
     (lit ''ci/cd'', lit ''CI/CD''),
     (lit ''cicd'', lit ''CI/CD''),
     (lit ''continuous integration'', lit ''CI/CD''),
     (lit ''jenkins'', lit ''Jenkins''),
     (lit ''agile'', lit ''Agile''),
     (lit ''scrum'', lit ''Scrum''),
     (lit ''kanban'', lit ''Kanban''),
     (lit ''angular'', lit ''Angular''),
     (lit ''angularjs'', lit ''Angular''),
     (lit ''vue'', lit ''Vue.js''),
     (lit ''vuejs'', lit ''Vue.js''),
     (lit ''vue.js'', lit ''Vue.js''),
     (lit ''svelte'', lit ''Svelte''),
     (lit ''nextjs'', lit ''Next.js''),
     (lit ''next.js'', lit ''Next.js''),
     (lit ''django'', lit ''Django''),
     (lit ''flask'', lit ''Flask''),
     (lit ''fastapi'', lit ''FastAPI''),
     (lit ''express'', lit ''Express.js''),
     (lit ''expressjs'', lit ''Express.js''),
     (lit ''spring'', lit ''Spring''),
     (lit ''spring boot'', lit ''Spring Boot''),
     (lit ''springboot'', lit ''Spring Boot''),
     (lit ''react native'', lit ''React Native''),
     (lit ''flutter'', lit ''Flutter''),
     (lit ''swift'', lit ''Swift''),
     (lit ''kotlin'', lit ''Kotlin''),
     (lit ''ios'', lit ''iOS Development''),
     (lit ''android'', lit ''Android Development''),
     (lit ''pandas'', lit ''Pandas''),
     (lit ''numpy'', lit ''NumPy''),
     (lit ''scipy'', lit ''SciPy''),
     (lit ''scikit-learn'', lit ''Scikit-learn''),
     (lit ''sklearn'', lit ''Scikit-learn''),
     (lit ''matplotlib'', lit ''Matplotlib''),
     (lit ''seaborn'', lit ''Seaborn''),
     (lit ''spark'', lit ''Apache Spark''),
     (lit ''apache spark'', lit ''Apache Spark''),
     (lit ''hadoop'', lit ''Hadoop''),
     (lit ''kafka'', lit ''Apache Kafka''),
     (lit ''apache kafka'', lit ''Apache Kafka''),
     (lit ''jest'', lit ''Jest''),
     (lit ''mocha'', lit ''Mocha''),
     (lit ''pytest'', lit ''pytest''),
     (lit ''unittest'', lit ''unittest''),
     (lit ''selenium'', lit ''Selenium''),
     (lit ''cypress'', lit ''Cypress''),
     (lit ''rest'', lit ''REST API''),
     (lit ''restful'', lit ''REST API''),
     (lit ''rest api'', lit ''REST API''),
     (lit ''graphql'', lit ''GraphQL''),
     (lit ''grpc'', lit ''gRPC'')]"

definition SKILL_CATEGORIES :: "(pstr \<times> pstr list) list" where
  "SKILL_CATEGORIES =
    [(lit ''programming_languages'',
      [lit ''JavaScript'', lit ''TypeScript'', lit ''Python'', lit ''Java'', lit ''C#'', lit ''C++'', lit ''C'', lit ''Go'', lit ''Rust'', lit ''Ruby'', lit ''PHP'', lit ''Swift'', lit ''Kotlin'', lit ''Scala'', lit ''R'', lit ''MATLAB'', lit ''Perl'', lit ''Haskell'', lit ''Elixir'', lit ''Clojure'']),
     (lit ''frontend'',
      [lit ''React'', lit ''Angular'', lit ''Vue.js'', lit ''Svelte'', lit ''Next.js'', lit ''HTML'', lit ''CSS'', lit ''Sass'', lit ''Less'', lit ''Tailwind CSS'', lit ''Bootstrap'', lit ''Material UI'', lit ''Redux'', lit ''MobX'', lit ''Webpack'', lit ''Vite'', lit ''jQuery'']),
     (lit ''backend'',
      [lit ''Node.js'', lit ''Django'', lit ''Flask'', lit ''FastAPI'', lit ''Express.js'', lit ''Spring'', lit ''Spring Boot'', lit ''.NET'', lit ''Ruby on Rails'', lit ''Laravel'', lit ''ASP.NET'']),
     (lit ''databases'',
      [lit ''PostgreSQL'', lit ''MySQL'', lit ''MongoDB'', lit ''Redis'', lit ''Elasticsearch'', lit ''SQL Server'', lit ''Oracle'', lit ''SQLite'', lit ''Cassandra'', lit ''DynamoDB'', lit ''Firebase'', lit ''Neo4j'']),
     (lit ''cloud'',
      [lit ''AWS'', lit ''Azure'', lit ''Google Cloud'', lit ''Heroku'', lit ''DigitalOcean'', lit ''Vercel'', lit ''Netlify'', lit ''Cloudflare'']),
     (lit ''devops'',
      [lit ''Docker'', lit ''Kubernetes'', lit ''CI/CD'', lit ''Jenkins'', lit ''GitHub Actions'', lit ''GitLab CI'', lit ''Terraform'', lit ''Ansible'', lit ''Linux'', lit ''Nginx'', lit ''Apache'']),
     (lit ''data_science'',
      [lit ''Machine Learning'', lit ''Deep Learning'', lit ''NLP'', lit ''TensorFlow'', lit ''PyTorch'', lit ''Keras'', lit ''Scikit-learn'', lit ''Pandas'', lit ''NumPy'', lit ''Data Analysis'', lit ''Statistics'', lit ''Computer Vision'']),
     (lit ''mobile'',
      [lit ''React Native'', lit ''Flutter'', lit ''iOS Development'', lit ''Android Development'', lit ''Swift'', lit ''Kotlin'', lit ''Xamarin'']),
     (lit ''tools'',
      [lit ''Git'', lit ''GitHub'', lit ''GitLab'', lit ''Bitbucket'', lit ''Jira'', lit ''Confluence'', lit ''Slack'', lit ''VS Code'', lit ''IntelliJ'', lit ''Postman'', lit ''Figma'']),
     (lit ''soft_skills'',
      [lit ''Leadership'', lit ''Communication'', lit ''Teamwork'', lit ''Problem Solving'', lit ''Critical Thinking'', lit ''Time Management'', lit ''Agile'', lit ''Scrum'', lit ''Project Management'', lit ''Mentoring'']),
     (lit ''testing'',
      [lit ''Jest'', lit ''Mocha'', lit ''pytest'', lit ''Selenium'', lit ''Cypress'', lit ''JUnit'', lit ''TestNG'', lit ''Unit Testing'', lit ''Integration Testing'', lit ''E2E Testing'', lit ''TDD'', lit ''BDD''])]"

text \<open>
  A Python \<open>dict\<close> is held as the list of its items in insertion order, with one item a
  key. \<open>dict_set\<close> is \<open>d[k] = v\<close> and \<open>dict_get\<close> is \<open>d.get(k)\<close>.
\<close>

fun dict_set :: "('k \<times> 'v) list \<Rightarrow> 'k \<Rightarrow> 'v \<Rightarrow> ('k \<times> 'v) list" where
  "dict_set [] k v = [(k, v)]"
| "dict_set ((a, b) # d) k v = (if a = k then (a, v) # d else (a, b) # dict_set d k v)"

fun dict_get :: "('k \<times> 'v) list \<Rightarrow> 'k \<Rightarrow> 'v option" where
  "dict_get [] k = None"
| "dict_get ((a, b) # d) k = (if a = k then Some b else dict_get d k)"

definition dict_of :: "('k \<times> 'v) list \<Rightarrow> ('k \<times> 'v) list" where
  "dict_of items = foldl (\<lambda>d (k, v). dict_set d k v) [] items"

text \<open>
  \<open>SkillDatabase.__init__\<close>: the alias dictionary with lowercased keys, and the set of all
  known skills. The set is held as a duplicate-free list; the order in which Python
  iterates over a set is not specified, and \<open>normalize\<close> is shown below not to depend on it.
\<close>

definition db_aliases :: "(pstr \<times> pstr) list" where
  "db_aliases = dict_of (map (\<lambda>(k, v). (lower k, v)) SKILL_ALIASES)"

definition all_skills :: "pstr list" where
  "all_skills = remdups (concat (map snd SKILL_CATEGORIES) @ map snd db_aliases)"

text \<open>\<open>SkillDatabase.normalize\<close>.\<close>

definition normalize :: "pstr \<Rightarrow> pstr" where
  "normalize skill =
     (let skill_lower = strip (lower skill) in
      case dict_get db_aliases skill_lower of
        Some v \<Rightarrow> v
      | None \<Rightarrow>
          (case find (\<lambda>known_skill. skill_lower = lower known_skill) all_skills of
             Some known_skill \<Rightarrow> known_skill
           | None \<Rightarrow> title_case (strip skill)))"

text \<open>\<open>SkillDatabase.get_category\<close>: the first category, in the order of the table.\<close>

definition category_of :: "pstr \<Rightarrow> pstr option" where
  "category_of normalized =
     map_option fst (find (\<lambda>(category, skills). normalized \<in> set skills) SKILL_CATEGORIES)"

definition get_category :: "pstr \<Rightarrow> pstr option" where
  "get_category skill = category_of (normalize skill)"

section \<open>The skill extractor\<close>

text \<open>
  The four proficiency levels are the strings \<open>'mentioned'\<close>, \<open>'used'\<close>, \<open>'proficient'\<close>
  and \<open>'expert'\<close> of the source. \<open>years\<close> is a float whose value is always a whole number
  (the \<open>float\<close> of a matched run of digits, or one of the defaults 5.0, 3.0, 1.0, 0.0), and
  is held as that number.
\<close>

datatype level = Mentioned | Used | Proficient | Expert

record ExtractedSkill =
  name :: pstr
  normalized_name :: pstr
  category :: pstr
  experience_level :: level
  "context" :: pstr
  years :: nat

text \<open>
  The pattern lists, as functions of \<open>re.escape(skill.lower())\<close>, which matches the
  lowercased skill literally. They are searched without flags.
\<close>

definition words :: "string list \<Rightarrow> rx" where
  "words ws = alt (map (\<lambda>w. lits (lit w)) ws)"

definition any_char :: "nat \<Rightarrow> bool" where
  "any_char c = (c \<noteq> 10)"

definition EXPERT_PATTERNS :: "pstr \<Rightarrow> rx list" where
  "EXPERT_PATTERNS skill =
     [seqs [words [''expert'', ''advanced'', ''senior'', ''lead'', ''architect''], plus is_space,
            opt (words [''in'', ''with'', ''level'']), star is_space, lits skill],
      seqs [lits skill, plus is_space, words [''expert'', ''architect'', ''lead'']],
      seqs [words [''deep'', ''extensive'', ''strong''], plus is_space,
            words [''experience'', ''expertise'', ''knowledge''], plus is_space,
            words [''in'', ''with''], plus is_space, lits skill],
      seqs [alt [seqs [plus is_digit, opt (lits (lit ''+'')), star is_space,
                       lits (lit ''year''), opt (lits (lit ''s''))],
                 seqs [cls (\<lambda>c. 53 \<le> c \<and> c \<le> 57), star is_digit, star is_space,
                       lits (lit ''year''), opt (lits (lit ''s''))]],
            plus is_space, opt (seqs [lits (lit ''of''), plus is_space]),
            opt (seqs [lits (lit ''experience''), plus is_space]),
            words [''in'', ''with''], plus is_space, lits skill]]"

definition PROFICIENT_PATTERNS :: "pstr \<Rightarrow> rx list" where
  "PROFICIENT_PATTERNS skill =
     [seqs [words [''proficient'', ''experienced'', ''skilled''], plus is_space,
            words [''in'', ''with''], plus is_space, lits skill],
      seqs [lits skill, plus is_space, words [''developer'', ''engineer'', ''specialist'']],
      seqs [words [''worked'', ''working''], plus is_space,
            opt (seqs [lits (lit ''extensively''), plus is_space]),
            words [''with'', ''on''], plus is_space, lits skill],
      seqs [cls (\<lambda>c. 50 \<le> c \<and> c \<le> 52), star is_space,
            lits (lit ''year''), opt (lits (lit ''s'')),
            plus is_space, opt (seqs [lits (lit ''of''), plus is_space]),
            opt (seqs [lits (lit ''experience''), plus is_space]),
            words [''in'', ''with''], plus is_space, lits skill],
      seqs [words [''built'', ''developed'', ''created'', ''implemented''], plus is_space,
            star any_char, lits skill]]"

definition USED_PATTERNS :: "pstr \<Rightarrow> rx list" where
  "USED_PATTERNS skill =
     [seqs [alt [lits (lit ''used''), lits (lit ''using''),
                 seqs [lits (lit ''worked''), plus is_space, lits (lit ''with'')]],
            plus is_space, lits skill],
      seqs [lits skill, plus is_space, words [''for'', ''in''], plus is_space],
      seqs [words [''experience'', ''knowledge''], plus is_space,
            words [''in'', ''with'', ''of''], plus is_space, lits skill],
      seqs [words [''familiar'', ''comfortable''], plus is_space, lits (lit ''with''),
            plus is_space, lits skill]]"

text \<open>\<open>_extract_years\<close>: \<open>(\d+)\+?\s*years?\<close> on the lowercased context.\<close>

definition years_pattern :: rx where
  "years_pattern = seqs [grp 1 (plus is_digit), opt (lits (lit ''+'')), star is_space,
                         lits (lit ''year''), opt (lits (lit ''s''))]"

definition extract_years :: "pstr \<Rightarrow> nat" where
  "extract_years ctx =
     (case search years_pattern (lower ctx) of
        Some years_match \<Rightarrow> int_of_digits (group years_match 1 (lower ctx))
      | None \<Rightarrow> 0)"

text \<open>\<open>_detect_experience_level\<close>: the tiers in order, the first pattern that is found.\<close>

definition any_found :: "rx list \<Rightarrow> pstr \<Rightarrow> bool" where
  "any_found patterns t = list_ex (\<lambda>pattern. search pattern t \<noteq> None) patterns"

definition detect_experience_level :: "pstr \<Rightarrow> pstr \<Rightarrow> level \<times> nat" where
  "detect_experience_level ctx skill =
     (let context_lower = lower ctx; skill_pattern = lower skill; years = extract_years ctx in
      if any_found (EXPERT_PATTERNS skill_pattern) context_lower
        then (Expert, if 0 < years then years else 5)
      else if any_found (PROFICIENT_PATTERNS skill_pattern) context_lower
        then (Proficient, if 0 < years then years else 3)
      else if any_found (USED_PATTERNS skill_pattern) context_lower
        then (Used, if 0 < years then years else 1)
      else (Mentioned, 0))"

text \<open>
  \<open>_compile_patterns\<close>: every alias and every lowercased known skill, without duplicates,
  the longest first; the pattern is \<open>\b(a1|a2|...)\b\<close> under \<open>re.IGNORECASE\<close>. The order
  among alternatives of one length is that of Python's set and is not specified; it has
  no effect on what the pattern matches (lemma \<open>skill_match_longest\<close> below).
\<close>

definition raw_alternatives :: "pstr list" where
  "raw_alternatives = map fst db_aliases @ map lower all_skills"

definition skill_alternatives :: "pstr list" where
  "skill_alternatives = sort_key (\<lambda>s. - int (length s)) (remdups raw_alternatives)"

fun alt_lits_i :: "pstr list \<Rightarrow> rx" where
  "alt_lits_i [] t st = []"
| "alt_lits_i (s # ss) t st = lits_i s t st @ alt_lits_i ss t st"

definition skill_pattern_of :: "pstr list \<Rightarrow> rx" where
  "skill_pattern_of alternatives = seqs [wordb, grp 1 (alt_lits_i alternatives), wordb]"

definition skill_pattern :: rx where
  "skill_pattern = skill_pattern_of skill_alternatives"

text \<open>\<open>_split_sentences\<close>.\<close>

definition sentence_end :: "nat \<Rightarrow> bool" where
  "sentence_end c = (c = 46 \<or> c = 33 \<or> c = 63 \<or> c = 10)"

definition split_sentences :: "pstr \<Rightarrow> pstr list" where
  "split_sentences text =
     map strip (filter (\<lambda>s. strip s \<noteq> []) (re_split (plus sentence_end) text))"

text \<open>
  \<open>extract_skills\<close>. The two loops carry the list of records and the set \<open>seen_skills\<close>;
  \<open>findall\<close> on a pattern with one group gives the texts of that group.
\<close>

definition make_skill :: "pstr \<Rightarrow> pstr \<Rightarrow> ExtractedSkill" where
  "make_skill sentence match =
     (let normalized = normalize match;
          (level, years) = detect_experience_level sentence match;
          category = (case get_category normalized of Some c \<Rightarrow> c | None \<Rightarrow> lit ''other'')
      in \<lparr>name = match, normalized_name = normalized, category = category,
          experience_level = level, context = strip sentence, years = years\<rparr>)"

fun scan_matches ::
  "pstr \<Rightarrow> pstr list \<Rightarrow> ExtractedSkill list \<times> pstr set
     \<Rightarrow> ExtractedSkill list \<times> pstr set" where
  "scan_matches sentence [] acc = acc"
| "scan_matches sentence (match # matches) (skills, seen_skills) =
     (let normalized = normalize match in
      if lower normalized \<in> seen_skills
        then scan_matches sentence matches (skills, seen_skills)
      else scan_matches sentence matches
             (skills @ [make_skill sentence match], insert (lower normalized) seen_skills))"

definition findall_skills :: "pstr \<Rightarrow> pstr list" where
  "findall_skills sentence_lower =
     map (\<lambda>m. group m 1 sentence_lower) (finditer skill_pattern sentence_lower)"

fun scan_sentences ::
  "pstr list \<Rightarrow> ExtractedSkill list \<times> pstr set \<Rightarrow> ExtractedSkill list \<times> pstr set" where
  "scan_sentences [] acc = acc"
| "scan_sentences (sentence # sentences) acc =
     scan_sentences sentences (scan_matches sentence (findall_skills (lower sentence)) acc)"

definition extract_skills :: "pstr \<Rightarrow> ExtractedSkill list" where
  "extract_skills text = fst (scan_sentences (split_sentences text) ([], {}))"

section \<open>The experience detector\<close>

record WorkExperience =
  title :: pstr
  company :: pstr
  duration_months :: int
  start_date :: "pstr option"
  end_date :: "pstr option"
  is_current :: bool
  is_internship :: bool
  is_freelance :: bool
  description :: pstr

text \<open>
  The fields \<open>name\<close> and \<open>description\<close> of the source's \<open>Project\<close> carry the prefix
  \<open>project_\<close> here, to keep them apart from those of the other records.
\<close>

record Project =
  project_name :: pstr
  project_description :: pstr
  technologies :: "pstr list"
  is_professional :: bool

datatype trajectory = Insufficient_data | Lateral_senior | Ascending | Descending | Mixed

datatype seniority = Entry | Mid | Senior | Lead | Executive

record ExperienceAnalysis =
  total_experience_months :: int
  relevant_experience_months :: int
  work_experiences :: "WorkExperience list"
  projects :: "Project list"
  has_career_gaps :: bool
  gap_explanation :: "pstr option"
  experience_trajectory :: trajectory
  seniority_estimate :: seniority

text \<open>The section headers, each followed by white space.\<close>

definition word_sp :: "string \<Rightarrow> rx" where
  "word_sp w = seq (lits (lit w)) (plus is_space)"

definition EXPERIENCE_HEADERS :: "rx list" where
  "EXPERIENCE_HEADERS =
     [seqs [opt (word_sp ''work''), lits (lit ''experience'')],
      seqs [word_sp ''employment'', lits (lit ''history'')],
      seqs [word_sp ''professional'', lits (lit ''experience'')],
      seqs [word_sp ''career'', lits (lit ''history'')],
      seqs [word_sp ''work'', lits (lit ''history'')]]"

definition PROJECT_HEADERS :: "rx list" where
  "PROJECT_HEADERS =
     [seqs [lits (lit ''project''), opt (lits (lit ''s''))],
      seqs [word_sp ''personal'', lits (lit ''project''), opt (lits (lit ''s''))],
      seqs [word_sp ''side'', lits (lit ''project''), opt (lits (lit ''s''))],
      lits (lit ''portfolio''),
      seqs [word_sp ''notable'', lits (lit ''project''), opt (lits (lit ''s''))]]"

definition INTERNSHIP_INDICATORS :: "pstr list" where
  "INTERNSHIP_INDICATORS = map lit [''intern'', ''internship'', ''trainee'', ''apprentice'']"

definition FREELANCE_INDICATORS :: "pstr list" where
  "FREELANCE_INDICATORS =
     map lit [''freelance'', ''consultant'', ''contractor'', ''self-employed'', ''independent'']"

text \<open>
  \<open>_find_section\<close>: the first header of the list that is found, on a line of its own or
  before a colon; the section runs to the next major header.
\<close>

definition header_pattern :: "rx \<Rightarrow> rx" where
  "header_pattern header =
     seqs [cls (\<lambda>c. c = 10), star is_space, grp 1 header, star is_space,
           cls (\<lambda>c. c = 58 \<or> c = 10)]"

definition next_section_pattern :: rx where
  "next_section_pattern =
     seqs [cls (\<lambda>c. c = 10), star is_space,
           words [''education'', ''skills'', ''certif'', ''awards'', ''reference'', ''contact'']]"

fun find_section :: "pstr \<Rightarrow> rx list \<Rightarrow> pstr option" where
  "find_section text [] = None"
| "find_section text (header # headers) =
     (case search (header_pattern header) (lower text) of
        Some m \<Rightarrow>
          (let start = m_end m;
               stop = (case search next_section_pattern (drop start (lower text)) of
                        Some next_section \<Rightarrow> start + m_start next_section
                      | None \<Rightarrow> length text)
           in Some (slice text start stop))
      | None \<Rightarrow> find_section text headers)"

text \<open>\<open>_split_into_entries\<close>: split on \<open>\n\s*\n\<close>.\<close>

definition blank_line :: rx where
  "blank_line = seqs [cls (\<lambda>c. c = 10), star is_space, cls (\<lambda>c. c = 10)]"

definition split_into_entries :: "pstr \<Rightarrow> pstr list" where
  "split_into_entries section =
     map strip (filter (\<lambda>e. strip e \<noteq> [] \<and> 20 < length (strip e))
                  (re_split blank_line section))"

text \<open>\<open>_extract_title\<close>, with \<open>TITLE_PATTERNS\<close> under \<open>re.IGNORECASE\<close>.\<close>

definition words_i :: "string list \<Rightarrow> rx" where
  "words_i ws = alt (map (\<lambda>w. lits_i (lit w)) ws)"

definition TITLE_PATTERNS :: "rx list" where
  "TITLE_PATTERNS =
     [seqs [opt (words_i [''senior'', ''junior'', ''lead'', ''principal'', ''staff'',
                          ''associate'']),
            star is_space,
            opt (alt [lits_i (lit ''software''), lits_i (lit ''backend''),
                      lits_i (lit ''frontend''),
                      seqs [lits_i (lit ''full''), opt (cls (\<lambda>c. is_space c \<or> c = 45)),
                            lits_i (lit ''stack'')],
                      lits_i (lit ''web''), lits_i (lit ''mobile''), lits_i (lit ''devops''),
                      lits_i (lit ''data''), lits_i (lit ''ml''), lits_i (lit ''ai'')]),
            star is_space,
            words_i [''engineer'', ''developer'', ''programmer'', ''architect'', ''analyst'',
                     ''scientist'', ''manager'', ''director'']]]"

fun first_found :: "rx list \<Rightarrow> pstr \<Rightarrow> rmatch option" where
  "first_found [] t = None"
| "first_found (pattern # patterns) t =
     (case search pattern t of Some m \<Rightarrow> Some m | None \<Rightarrow> first_found patterns t)"

definition extract_title :: "pstr \<Rightarrow> pstr option" where
  "extract_title line =
     (case first_found TITLE_PATTERNS line of
        Some m \<Rightarrow> Some (title_case (strip (group0 m line)))
      | None \<Rightarrow> if length (strip line) < 100 then Some (take 100 (strip line)) else None)"

text \<open>\<open>_extract_company\<close>; these two patterns are searched without flags.\<close>

definition company_char :: "nat \<Rightarrow> bool" where
  "company_char c = (is_lower c \<or> is_upper c \<or> is_digit c \<or> is_space c \<or> c = 38 \<or> c = 46)"

definition company_patterns :: "rx list" where
  "company_patterns =
     [seqs [alt [lits (lit ''at''), lits (lit ''@'')], plus is_space,
            grp 1 (seq (cls is_upper) (plus company_char))],
      seqs [grp 1 (seq (cls is_upper) (plus company_char)), star is_space,
            cls (\<lambda>c. c = 45 \<or> c = 124), star is_space,
            words [''senior'', ''junior'', ''lead'', ''software'']]]"

definition extract_company :: "pstr \<Rightarrow> pstr option" where
  "extract_company entry =
     map_option (\<lambda>m. strip (group m 1 entry)) (first_found company_patterns entry)"

text \<open>
  \<open>_extract_dates\<close>. \<open>datetime.now()\<close> is the parameter \<open>now\<close>, a year and a month.
  The duration is a Python \<open>int\<close>.
\<close>

definition year_range_pattern :: rx where
  "year_range_pattern =
     seqs [grp 1 (times is_digit 4), star is_space,
           plus (\<lambda>c. c = 45 \<or> c = en_dash \<or> c = 116 \<or> c = 111), star is_space,
           grp 2 (alt [times is_digit 4, lits (lit ''present''), lits (lit ''current''),
                       lits (lit ''now'')])]"

definition month_names :: "string list" where
  "month_names = [''jan'', ''feb'', ''mar'', ''apr'', ''may'', ''jun'',
                  ''jul'', ''aug'', ''sep'', ''oct'', ''nov'', ''dec'']"

definition month_year_pattern :: rx where
  "month_year_pattern =
     seqs [grp 1 (words month_names), star is_lower, opt (lits (lit ''.'')), star is_space,
           grp 2 (times is_digit 4)]"

definition months :: "(pstr \<times> int) list" where
  "months = zip (map lit month_names) [1, 2, 3, 4, 5, 6, 7, 8, 9, 10, 11, 12]"

text \<open>The first group of \<open>month_year_pattern\<close> is one of the keys of \<open>months\<close>.\<close>

definition month_number :: "pstr \<Rightarrow> int" where
  "month_number m = (case dict_get months (take 3 m) of Some n \<Rightarrow> n | None \<Rightarrow> 0)"

definition extract_dates :: "nat \<times> nat \<Rightarrow> pstr \<Rightarrow> pstr option \<times> pstr option \<times> int" where
  "extract_dates now entry =
     (let entry_lower = lower entry in
      case search year_range_pattern entry_lower of
        Some year_range \<Rightarrow>
          (let start_year = int_of_digits (group year_range 1 entry_lower);
               end_str = group year_range 2 entry_lower;
               (end_year, end_month) =
                 (if end_str \<in> set (map lit [''present'', ''current'', ''now''])
                  then (fst now, snd now) else (int_of_digits end_str, 12));
               duration = (int end_year - int start_year) * 12 + (int end_month - 6)
           in (Some (str_of_nat start_year), Some end_str, max 1 duration))
      | None \<Rightarrow>
          (case map (\<lambda>m. (group m 1 entry_lower, group m 2 entry_lower))
                  (finditer month_year_pattern entry_lower) of
             m0 # m1 # _ \<Rightarrow>
               (let start = title_case (fst m0) @ lit '' '' @ snd m0;
                    end_s = title_case (fst m1) @ lit '' '' @ snd m1;
                    start_month = month_number (fst m0);
                    start_year = int (int_of_digits (snd m0));
                    end_month = month_number (fst m1);
                    end_year = int (int_of_digits (snd m1));
                    duration = (end_year - start_year) * 12 + (end_month - start_month)
                in (Some start, Some end_s, max 1 duration))
           | _ \<Rightarrow> (None, None, 12)))"

text \<open>
  \<open>_parse_experience_entry\<close>. \<open>x or default\<close> takes the default for \<open>None\<close> and for the
  empty string. \<open>entry.split('\n')\<close> is never empty, so the entry is always parsed.
\<close>

definition or_default :: "pstr option \<Rightarrow> pstr \<Rightarrow> pstr" where
  "or_default x d = (case x of None \<Rightarrow> d | Some s \<Rightarrow> if s = [] then d else s)"

definition any_in :: "pstr list \<Rightarrow> pstr \<Rightarrow> bool" where
  "any_in ws t = list_ex (\<lambda>w. contains t w) ws"

definition parse_experience_entry :: "nat \<times> nat \<Rightarrow> pstr \<Rightarrow> WorkExperience" where
  "parse_experience_entry now entry =
     (let lines = split_lines entry;
          (start_date, end_date, duration) = extract_dates now entry
      in \<lparr>title = or_default (extract_title (hd lines)) (lit ''Unknown Position''),
          company = or_default (extract_company entry) (lit ''Unknown Company''),
          duration_months = duration,
          start_date = start_date,
          end_date = end_date,
          is_current = (case end_date of
                          None \<Rightarrow> True
                        | Some e \<Rightarrow> e = [] \<or> e \<in> set (map lit [''present'', ''current'', ''now''])),
          is_internship = any_in INTERNSHIP_INDICATORS (lower entry),
          is_freelance = any_in FREELANCE_INDICATORS (lower entry),
          description = entry\<rparr>)"

text \<open>\<open>_parse_project_entry\<close>; \<open>list(set(techs))\<close> is held without duplicates.\<close>

definition alias_found :: "pstr \<Rightarrow> pstr \<Rightarrow> bool" where
  "alias_found entry alias = (search (seqs [wordb, lits_i alias, wordb]) entry \<noteq> None)"

definition parse_project_entry :: "pstr \<Rightarrow> Project" where
  "parse_project_entry entry =
     (let lines = split_lines entry in
      \<lparr>project_name = take 100 (strip (hd lines)),
       project_description = strip (join [10] (tl lines)),
       technologies = remdups (map normalize (filter (alias_found entry) (map fst db_aliases))),
       is_professional =
         any_in (map lit [''client'', ''company'', ''production'', ''deployed'', ''users''])
           (lower entry)\<rparr>)"

text \<open>
  \<open>_extract_work_experiences\<close> and \<open>_extract_projects\<close>. \<open>not exp_section\<close> holds for
  \<open>None\<close> and for the empty string.
\<close>

definition extract_work_experiences :: "nat \<times> nat \<Rightarrow> pstr \<Rightarrow> WorkExperience list" where
  "extract_work_experiences now text =
     (let exp_section = (case find_section text EXPERIENCE_HEADERS of
                           None \<Rightarrow> text
                         | Some s \<Rightarrow> if s = [] then text else s)
      in map (parse_experience_entry now) (split_into_entries exp_section))"

definition extract_projects :: "pstr \<Rightarrow> Project list" where
  "extract_projects text =
     (case find_section text PROJECT_HEADERS of
        None \<Rightarrow> []
      | Some proj_section \<Rightarrow>
          if proj_section = [] then []
          else map parse_project_entry (split_into_entries proj_section))"

text \<open>\<open>_calculate_relevant_experience\<close>, with its two loops.\<close>

definition mentions :: "pstr list \<Rightarrow> pstr \<Rightarrow> bool" where
  "mentions required_lower t = list_ex (\<lambda>skill. contains t skill) required_lower"

fun add_experiences :: "pstr list \<Rightarrow> WorkExperience list \<Rightarrow> int \<Rightarrow> int" where
  "add_experiences required_lower [] relevant_months = relevant_months"
| "add_experiences required_lower (exp # exps) relevant_months =
     add_experiences required_lower exps
       (if mentions required_lower (lower (description exp))
        then relevant_months + duration_months exp else relevant_months)"

fun add_projects :: "pstr list \<Rightarrow> Project list \<Rightarrow> int \<Rightarrow> int" where
  "add_projects required_lower [] relevant_months = relevant_months"
| "add_projects required_lower (proj # projs) relevant_months =
     add_projects required_lower projs
       (if mentions required_lower
             (lower (project_name proj @ lit '' '' @ project_description proj))
        then relevant_months + 6 else relevant_months)"

definition calculate_relevant_experience ::
  "WorkExperience list \<Rightarrow> Project list \<Rightarrow> pstr list \<Rightarrow> int" where
  "calculate_relevant_experience experiences projs required_skills =
     (if required_skills = [] then sum_list (map duration_months experiences)
      else let required_lower = map lower required_skills in
           add_projects required_lower projs (add_experiences required_lower experiences 0))"

text \<open>\<open>_detect_career_gaps\<close>, \<open>_analyze_trajectory\<close>.\<close>

definition detect_career_gaps :: "WorkExperience list \<Rightarrow> bool \<times> pstr option" where
  "detect_career_gaps experiences = (False, None)"

definition senior_keywords :: "pstr list" where
  "senior_keywords = map lit [''senior'', ''lead'', ''principal'', ''staff'', ''manager'',
                              ''director'', ''architect'']"

definition analyze_trajectory :: "WorkExperience list \<Rightarrow> trajectory" where
  "analyze_trajectory experiences =
     (if length experiences < 2 then Insufficient_data
      else let progression = map (\<lambda>exp. any_in senior_keywords (lower (title exp))) experiences in
           if list_all (\<lambda>b. b) progression then Lateral_senior
           else if last progression \<and> \<not> hd progression then Ascending
           else if hd progression \<and> \<not> last progression then Descending
           else Mixed)"

text \<open>
  \<open>_estimate_seniority\<close>. \<open>years = total_months / 12\<close> is a float, and \<open>years >= 8\<close> holds
  exactly when \<open>total_months \<ge> 96\<close>, \<open>years >= 3\<close> exactly when \<open>total_months \<ge> 36\<close>.
\<close>

definition executive_keywords :: "pstr list" where
  "executive_keywords = map lit [''director'', ''vp'', ''vice president'', ''cto'', ''ceo'']"

definition lead_keywords :: "pstr list" where
  "lead_keywords = map lit [''lead'', ''principal'', ''staff'', ''manager'']"

fun check_titles :: "WorkExperience list \<Rightarrow> seniority option" where
  "check_titles [] = None"
| "check_titles (exp # exps) =
     (let title_lower = lower (title exp) in
      if any_in executive_keywords title_lower then Some Executive
      else if any_in lead_keywords title_lower then Some Lead
      else if contains title_lower (lit ''senior'') then Some Senior
      else check_titles exps)"

definition estimate_seniority :: "WorkExperience list \<Rightarrow> int \<Rightarrow> seniority" where
  "estimate_seniority experiences total_months =
     (case check_titles (take 2 experiences) of
        Some s \<Rightarrow> s
      | None \<Rightarrow> if 96 \<le> total_months then Senior
                else if 36 \<le> total_months then Mid
                else Entry)"

text \<open>\<open>analyze_experience\<close>; \<open>required_skills\<close> is \<open>None\<close> by default.\<close>

definition analyze_experience ::
  "nat \<times> nat \<Rightarrow> pstr \<Rightarrow> pstr list option \<Rightarrow> ExperienceAnalysis" where
  "analyze_experience now text required_skills =
     (let required = (case required_skills of None \<Rightarrow> [] | Some r \<Rightarrow> r);
          experiences = extract_work_experiences now text;
          projs = extract_projects text;
          total_months = sum_list (map duration_months experiences);
          relevant_months = calculate_relevant_experience experiences projs required;
          (has_gaps, explanation) = detect_career_gaps experiences
      in \<lparr>total_experience_months = total_months,
          relevant_experience_months = relevant_months,
          work_experiences = experiences,
          projects = projs,
          has_career_gaps = has_gaps,
          gap_explanation = explanation,
          experience_trajectory = analyze_trajectory experiences,
          seniority_estimate = estimate_seniority experiences total_months\<rparr>)"

section \<open>The relevance rule of the specification\<close>

text \<open>
  The relevance rule in the words of the specification: the durations of the work
  entries whose description mentions a required skill (compared in lowercase), plus six
  months for each project whose name and description (joined by a space, as the source
  joins them) mention one.
\<close>

definition relevant_months_spec ::
  "WorkExperience list \<Rightarrow> Project list \<Rightarrow> pstr list \<Rightarrow> int" where
  "relevant_months_spec experiences projs required_skills =
     sum_list (map duration_months
        (filter (\<lambda>exp. mentions (map lower required_skills) (lower (description exp)))
           experiences))
     + 6 * int (length
        (filter (\<lambda>proj. mentions (map lower required_skills)
                   (lower (project_name proj @ lit '' '' @ project_description proj))) projs))"

text \<open>The code points of the characters of the literals.\<close>

lemma of_char_ascii [simp]:
  "of_char (CHR '' '') = (32::nat)"
  "of_char (CHR ''!'') = (33::nat)"
  "of_char (CHR ''#'') = (35::nat)"
  "of_char (CHR ''$'') = (36::nat)"
  "of_char (CHR ''%'') = (37::nat)"
  "of_char (CHR ''&'') = (38::nat)"
  "of_char (CHR ''('') = (40::nat)"
  "of_char (CHR '')'') = (41::nat)"
  "of_char (CHR ''*'') = (42::nat)"
  "of_char (CHR ''+'') = (43::nat)"
  "of_char (CHR '','') = (44::nat)"
  "of_char (CHR ''-'') = (45::nat)"
  "of_char (CHR ''.'') = (46::nat)"
  "of_char (CHR ''/'') = (47::nat)"
  "of_char (CHR ''0'') = (48::nat)"
  "of_char (CHR ''1'') = (49::nat)"
  "of_char (CHR ''2'') = (50::nat)"
  "of_char (CHR ''3'') = (51::nat)"
  "of_char (CHR ''4'') = (52::nat)"
  "of_char (CHR ''5'') = (53::nat)"
  "of_char (CHR ''6'') = (54::nat)"
  "of_char (CHR ''7'') = (55::nat)"
  "of_char (CHR ''8'') = (56::nat)"
  "of_char (CHR ''9'') = (57::nat)"
  "of_char (CHR '':'') = (58::nat)"
  "of_char (CHR '';'') = (59::nat)"
  "of_char (CHR ''<'') = (60::nat)"
  "of_char (CHR ''='') = (61::nat)"
  "of_char (CHR ''>'') = (62::nat)"
  "of_char (CHR ''?'') = (63::nat)"
  "of_char (CHR ''@'') = (64::nat)"
  "of_char (CHR ''A'') = (65::nat)"
  "of_char (CHR ''B'') = (66::nat)"
  "of_char (CHR ''C'') = (67::nat)"
  "of_char (CHR ''D'') = (68::nat)"
  "of_char (CHR ''E'') = (69::nat)"
  "of_char (CHR ''F'') = (70::nat)"
  "of_char (CHR ''G'') = (71::nat)"
  "of_char (CHR ''H'') = (72::nat)"
  "of_char (CHR ''I'') = (73::nat)"
  "of_char (CHR ''J'') = (74::nat)"
  "of_char (CHR ''K'') = (75::nat)"
  "of_char (CHR ''L'') = (76::nat)"
  "of_char (CHR ''M'') = (77::nat)"
  "of_char (CHR ''N'') = (78::nat)"
  "of_char (CHR ''O'') = (79::nat)"
  "of_char (CHR ''P'') = (80::nat)"
  "of_char (CHR ''Q'') = (81::nat)"
  "of_char (CHR ''R'') = (82::nat)"
  "of_char (CHR ''S'') = (83::nat)"
  "of_char (CHR ''T'') = (84::nat)"
  "of_char (CHR ''U'') = (85::nat)"
  "of_char (CHR ''V'') = (86::nat)"
  "of_char (CHR ''W'') = (87::nat)"
  "of_char (CHR ''X'') = (88::nat)"
  "of_char (CHR ''Y'') = (89::nat)"
  "of_char (CHR ''Z'') = (90::nat)"
  "of_char (CHR ''['') = (91::nat)"
  "of_char (CHR '']'') = (93::nat)"
  "of_char (CHR ''^'') = (94::nat)"
  "of_char (CHR ''_'') = (95::nat)"
  "of_char (CHR ''`'') = (96::nat)"
  "of_char (CHR ''a'') = (97::nat)"
  "of_char (CHR ''b'') = (98::nat)"
  "of_char (CHR ''c'') = (99::nat)"
  "of_char (CHR ''d'') = (100::nat)"
  "of_char (CHR ''e'') = (101::nat)"
  "of_char (CHR ''f'') = (102::nat)"
  "of_char (CHR ''g'') = (103::nat)"
  "of_char (CHR ''h'') = (104::nat)"
  "of_char (CHR ''i'') = (105::nat)"
  "of_char (CHR ''j'') = (106::nat)"
  "of_char (CHR ''k'') = (107::nat)"
  "of_char (CHR ''l'') = (108::nat)"
  "of_char (CHR ''m'') = (109::nat)"
  "of_char (CHR ''n'') = (110::nat)"
  "of_char (CHR ''o'') = (111::nat)"
  "of_char (CHR ''p'') = (112::nat)"
  "of_char (CHR ''q'') = (113::nat)"
  "of_char (CHR ''r'') = (114::nat)"
  "of_char (CHR ''s'') = (115::nat)"
  "of_char (CHR ''t'') = (116::nat)"
  "of_char (CHR ''u'') = (117::nat)"
  "of_char (CHR ''v'') = (118::nat)"
  "of_char (CHR ''w'') = (119::nat)"
  "of_char (CHR ''x'') = (120::nat)"
  "of_char (CHR ''y'') = (121::nat)"
  "of_char (CHR ''z'') = (122::nat)"
  "of_char (CHR ''{'') = (123::nat)"
  "of_char (CHR ''|'') = (124::nat)"
  "of_char (CHR ''}'') = (125::nat)"
  "of_char (CHR ''~'') = (126::nat)"
  "of_char (CHR 0x27) = (39::nat)"
  "of_char (CHR 0x5C) = (92::nat)"
  "of_char (CHR 0x22) = (34::nat)"
  by simp_all

lemma lit_Nil [simp]: "lit [] = []"
  by (simp add: lit_def)

lemma lit_Cons [simp]: "lit (c # cs) = of_char c # lit cs"
  by (simp add: lit_def)

section \<open>Properties of the experience metrics\<close>

lemma add_experiences_sum:
  "add_experiences rl exps acc =
     acc + sum_list (map duration_months
             (filter (\<lambda>exp. mentions rl (lower (description exp))) exps))"
  by (induction exps arbitrary: acc) auto

lemma add_projects_sum:
  "add_projects rl projs acc =
     acc + 6 * int (length
             (filter (\<lambda>proj. mentions rl
                  (lower (project_name proj @ lit '' '' @ project_description proj))) projs))"
  by (induction projs arbitrary: acc) auto

lemma calculate_relevant_nonempty:
  "required \<noteq> [] \<Longrightarrow>
     calculate_relevant_experience exps projs required = relevant_months_spec exps projs required"
  by (simp add: calculate_relevant_experience_def relevant_months_spec_def
        add_experiences_sum add_projects_sum Let_def)

lemma analyze_fields:
  "total_experience_months (analyze_experience now text rs) =
     sum_list (map duration_months (work_experiences (analyze_experience now text rs)))"
  "relevant_experience_months (analyze_experience now text rs) =
     calculate_relevant_experience (work_experiences (analyze_experience now text rs))
       (projects (analyze_experience now text rs)) (case rs of None \<Rightarrow> [] | Some r \<Rightarrow> r)"
  "work_experiences (analyze_experience now text rs) = extract_work_experiences now text"
  "projects (analyze_experience now text rs) = extract_projects text"
  "seniority_estimate (analyze_experience now text rs) =
     estimate_seniority (extract_work_experiences now text)
       (sum_list (map duration_months (extract_work_experiences now text)))"
  by (simp_all add: analyze_experience_def Let_def detect_career_gaps_def)

text \<open>
  C4. With no required skill the relevant months are the total months; otherwise they
  are the sum of the durations of the work entries whose description mentions a required
  skill, plus six months for each project whose name and description mention one.
\<close>

theorem relevant_months_refines:
  "relevant_experience_months (analyze_experience now text required_skills) =
     (let a = analyze_experience now text required_skills;
          required = (case required_skills of None \<Rightarrow> [] | Some r \<Rightarrow> r)
      in if required = [] then total_experience_months a
         else relevant_months_spec (work_experiences a) (projects a) required)"
  by (simp add: analyze_fields Let_def calculate_relevant_nonempty)
     (simp add: calculate_relevant_experience_def)

lemma filter_sum_le:
  "list_all (\<lambda>w. 0 \<le> duration_months w) ws \<Longrightarrow>
     sum_list (map duration_months (filter P ws)) \<le> sum_list (map duration_months ws)"
  by (induction ws) auto

lemma extract_dates_floor: "1 \<le> snd (snd (extract_dates now entry))"
  by (auto simp: extract_dates_def Let_def split: option.splits list.splits prod.splits)

lemma parse_duration: "1 \<le> duration_months (parse_experience_entry now entry)"
  using extract_dates_floor [of now entry]
  by (cases "extract_dates now entry") (simp add: parse_experience_entry_def Let_def)

lemma durations_positive:
  "list_all (\<lambda>w. 1 \<le> duration_months w) (extract_work_experiences now text)"
  by (simp add: extract_work_experiences_def Let_def list_all_iff parse_duration)

text \<open>
  C9. Every work entry of an analysis has a duration of at least one month: both date
  branches take the maximum of 1 and the computed difference, and an entry without a
  recognisable date gets 12.
\<close>

theorem duration_floor:
  "list_all (\<lambda>w. 1 \<le> duration_months w)
     (work_experiences (analyze_experience now text required_skills))"
  by (simp add: analyze_fields durations_positive)

text \<open>
  C5, as amended. The relevant months can exceed the total months, but by no more than
  the six months credited to each project; with no required skill the two are equal.
\<close>

theorem relevant_bound:
  "relevant_experience_months (analyze_experience now text required_skills)
     \<le> total_experience_months (analyze_experience now text required_skills)
       + 6 * int (length (projects (analyze_experience now text required_skills)))"
proof -
  let ?ws = "extract_work_experiences now text"
  let ?ps = "extract_projects text"
  let ?req = "case required_skills of None \<Rightarrow> [] | Some r \<Rightarrow> r"
  have nn: "list_all (\<lambda>w. 0 \<le> duration_months w) ?ws"
    using durations_positive [of now "text"] by (auto simp: list_all_iff)
  have "calculate_relevant_experience ?ws ?ps ?req
          \<le> sum_list (map duration_months ?ws) + 6 * int (length ?ps)"
  proof (cases "?req = []")
    case True
    then show ?thesis by (simp add: calculate_relevant_experience_def)
  next
    case False
    have a: "sum_list (map duration_months (filter P ?ws)) \<le> sum_list (map duration_months ?ws)"
      for P by (rule filter_sum_le [OF nn])
    have b: "int (length (filter Q ?ps)) \<le> int (length ?ps)" for Q by simp
    show ?thesis
      unfolding calculate_relevant_nonempty [OF False] relevant_months_spec_def
      using a b by (meson add_mono mult_left_mono zero_le_numeral)
  qed
  then show ?thesis by (simp add: analyze_fields)
qed

end
